theory Spec2Isabelle
  imports Main "HOL-Library.AList"
begin

section \<open>Strings, characters and errors\<close>

text \<open>
  A Python \<open>str\<close> is a sequence of Unicode code points, and \<open>len\<close>, indexing, the
  \<open>re\<close> module and \<open>int()\<close> all work on code points. A string is therefore a list of
  code points, each a natural number; \<open>ustr\<close> embeds an ASCII literal.
\<close>

type_synonym pychar = nat
type_synonym pystr = "pychar list"

abbreviation ustr :: "string \<Rightarrow> pystr" where
  "ustr \<equiv> map of_char"

text \<open>
  The exceptions that occur. \<open>ValueError\<close> and \<open>IndexError\<close> are the two classes
  \<open>input_error\<close> catches; \<open>OverflowError\<close> is what \<open>date + timedelta\<close> raises
  beyond 31.12.9999; \<open>AttributeError\<close> is what reading \<open>.value\<close> of a birthday that
  is \<open>None\<close> raises. Each carries \<open>str(e)\<close>.
\<close>

datatype error =
  ValueError pystr | IndexError pystr | OverflowError pystr | AttributeError pystr

text \<open>
  The decimal digits of Unicode (general category \<open>Nd\<close>): what \<open>\d\<close> matches in a
  \<open>str\<close> pattern, and what \<open>int()\<close> converts. Every run of decimal digits is ten
  consecutive code points starting at its digit zero; \<open>decimal_zeros\<close> lists the zeros
  (Unicode 14.0, the table of CPython 3.11: ASCII, Arabic-Indic, Devanagari, ...,
  fullwidth, mathematical digits, ...). The theorems below use the table only through
  \<open>todecimal\<close> and \<open>is_decimal\<close>.
\<close>

definition decimal_zeros :: "pychar list" where
  "decimal_zeros =
    [48, 1632, 1776, 1984, 2406, 2534, 2662, 2790, 2918, 3046, 3174, 3302, 3430, 3558,
     3664, 3792, 3872, 4160, 4240, 6112, 6160, 6470, 6608, 6784, 6800, 6992, 7088, 7232,
     7248, 42528, 43216, 43264, 43472, 43504, 43600, 44016, 65296, 66720, 68912, 69734,
     69872, 69942, 70096, 70384, 70736, 70864, 71248, 71360, 71472, 71904, 72016, 72784,
     73040, 73120, 92768, 92864, 93008, 120782, 120792, 120802, 120812, 120822, 123200,
     123632, 125264, 130032]"

definition todecimal :: "pychar \<Rightarrow> nat option" where
  "todecimal c =
     (case filter (\<lambda>z. z \<le> c \<and> c < z + 10) decimal_zeros of
        [] \<Rightarrow> None
      | z # _ \<Rightarrow> Some (c - z))"

definition is_decimal :: "pychar \<Rightarrow> bool" where
  "is_decimal c = (todecimal c \<noteq> None)"

text \<open>The ASCII digits \<open>0\<close> to \<open>9\<close> (code points 48 to 57).\<close>

definition ascii_digit :: "pychar \<Rightarrow> bool" where
  "ascii_digit c = (48 \<le> c \<and> c \<le> 57)"

section \<open>The fields\<close>

text \<open>
  \<open>Field\<close> only stores \<open>value\<close>, so a \<open>Name\<close> or \<open>Phone\<close> object is modelled by
  the string it holds and a \<open>Birthday\<close> object by its date. Each constructor returns
  the stored value, or the exception it raises.
  \<^verbatim>\<open>
  class Name(Field):
      def __init__(self, value):
          if not value:
              raise ValueError("Name cannot be empty.")
          super().__init__(value)
  \<close>
  \<open>not value\<close> is true of the empty string only.
\<close>

definition Name :: "pystr \<Rightarrow> error + pystr" where
  "Name v = (if v = [] then Inl (ValueError (ustr ''Name cannot be empty.'')) else Inr v)"

text \<open>
  \<^verbatim>\<open>
  class Phone(Field):
      def __init__(self, value):
          if not self.validate(value):
              raise ValueError("Invalid phone number format.")
          super().__init__(value)

      @staticmethod
      def validate(phone):
          return re.match(r"^\d{10}$", phone) is not None
  \<close>
  \<open>re.match\<close> anchors at the start; \<open>\d{10}\<close> takes ten decimal digits; \<open>$\<close>
  (without \<open>re.MULTILINE\<close>) matches at the end of the string and also just before a
  line feed that is the last character.
\<close>

definition validate :: "pystr \<Rightarrow> bool" where
  "validate phone =
     (let digits = take 10 phone; rest = drop 10 phone
      in length digits = 10 \<and> list_all is_decimal digits \<and> (rest = [] \<or> rest = [10]))"

definition Phone :: "pystr \<Rightarrow> error + pystr" where
  "Phone v =
     (if \<not> validate v then Inl (ValueError (ustr ''Invalid phone number format.''))
      else Inr v)"

section \<open>Calendar dates\<close>

text \<open>
  \<open>datetime.date\<close>: a year from 1 to 9999, a month and a day of the proleptic
  Gregorian calendar. The constructor checks the three fields in this order and raises
  \<open>ValueError\<close>; \<open>replace(year=y)\<close> constructs the date anew from the new year and the
  old month and day, so it raises where that date does not exist.
\<close>

record date =
  year :: nat
  month :: nat
  day :: nat

definition is_leap :: "nat \<Rightarrow> bool" where
  "is_leap y = (y mod 4 = 0 \<and> (y mod 100 \<noteq> 0 \<or> y mod 400 = 0))"

definition days_in_month :: "nat \<Rightarrow> nat \<Rightarrow> nat" where
  "days_in_month y m =
     (if m = 2 then (if is_leap y then 29 else 28)
      else if m = 4 \<or> m = 6 \<or> m = 9 \<or> m = 11 then 30
      else 31)"

definition date_new :: "nat \<Rightarrow> nat \<Rightarrow> nat \<Rightarrow> error + date" where
  "date_new y m d =
     (if \<not> (1 \<le> y \<and> y \<le> 9999) then Inl (ValueError (ustr ''year is out of range''))
      else if \<not> (1 \<le> m \<and> m \<le> 12) then Inl (ValueError (ustr ''month must be in 1..12''))
      else if \<not> (1 \<le> d \<and> d \<le> days_in_month y m)
        then Inl (ValueError (ustr ''day is out of range for month''))
      else Inr \<lparr>year = y, month = m, day = d\<rparr>)"

definition replace_year :: "date \<Rightarrow> nat \<Rightarrow> error + date" where
  "replace_year b y = date_new y (month b) (day b)"

text \<open>Dates compare as the triples (year, month, day).\<close>

definition date_lt :: "date \<Rightarrow> date \<Rightarrow> bool" where
  "date_lt a b =
     (year a < year b \<or> (year a = year b \<and>
       (month a < month b \<or> (month a = month b \<and> day a < day b))))"

definition date_le :: "date \<Rightarrow> date \<Rightarrow> bool" where
  "date_le a b = (date_lt a b \<or> a = b)"

text \<open>
  \<open>date + timedelta(days=n)\<close> for \<open>n \<ge> 0\<close>: the date \<open>n\<close> days later, or
  \<open>OverflowError\<close> when that is after 31.12.9999.
\<close>

definition next_day :: "date \<Rightarrow> date option" where
  "next_day d =
     (if day d < days_in_month (year d) (month d) then Some (d\<lparr>day := day d + 1\<rparr>)
      else if month d < 12 then Some \<lparr>year = year d, month = month d + 1, day = 1\<rparr>
      else if year d < 9999 then Some \<lparr>year = year d + 1, month = 1, day = 1\<rparr>
      else None)"

primrec add_days :: "date \<Rightarrow> nat \<Rightarrow> date option" where
  "add_days d 0 = Some d"
| "add_days d (Suc n) = (case next_day d of None \<Rightarrow> None | Some d' \<Rightarrow> add_days d' n)"

definition date_add_timedelta :: "date \<Rightarrow> nat \<Rightarrow> error + date" where
  "date_add_timedelta d n =
     (case add_days d n of
        None \<Rightarrow> Inl (OverflowError (ustr ''date value out of range''))
      | Some r \<Rightarrow> Inr r)"

section \<open>Parsing and rendering a birthday\<close>

text \<open>
  \<open>datetime.strptime(value, "%d.%m.%Y")\<close> compiles the format to the regular
  expression
  \<^verbatim>\<open>(?P<d>3[0-1]|[1-2]\d|0[1-9]|[1-9]| [1-9])\.(?P<m>1[0-2]|0[1-9]|[1-9])\.(?P<Y>\d\d\d\d)\<close>
  matches it at the start of the string, raises \<open>ValueError\<close> when nothing matches or
  when the match stops before the end of the string, converts the three groups with
  \<open>int()\<close> and constructs the date, which raises \<open>ValueError\<close> for a date that does not
  exist.

  A regular expression is modelled by the list of the ways it can match a prefix of the
  string, in the order in which the backtracking matcher tries them: each is the text
  matched and the rest of the string.
\<close>

type_synonym matcher = "pystr \<Rightarrow> (pystr \<times> pystr) list"

fun one_of :: "(pychar \<Rightarrow> bool) \<Rightarrow> matcher" where
  "one_of P [] = []"
| "one_of P (c # r) = (if P c then [([c], r)] else [])"

definition in_range :: "pychar \<Rightarrow> pychar \<Rightarrow> pychar \<Rightarrow> bool" where
  "in_range lo hi c = (lo \<le> c \<and> c \<le> hi)"

definition seq :: "matcher \<Rightarrow> matcher \<Rightarrow> matcher" where
  "seq p q s = concat (map (\<lambda>(a, r1). map (\<lambda>(b, r2). (a @ b, r2)) (q r1)) (p s))"

definition alt :: "matcher \<Rightarrow> matcher \<Rightarrow> matcher" where
  "alt p q s = p s @ q s"

text \<open>\<^verbatim>\<open>3[0-1]|[1-2]\d|0[1-9]|[1-9]| [1-9]\<close>\<close>

definition re_d :: matcher where
  "re_d =
     alt (seq (one_of (in_range 51 51)) (one_of (in_range 48 49)))
    (alt (seq (one_of (in_range 49 50)) (one_of is_decimal))
    (alt (seq (one_of (in_range 48 48)) (one_of (in_range 49 57)))
    (alt (one_of (in_range 49 57))
         (seq (one_of (in_range 32 32)) (one_of (in_range 49 57))))))"

text \<open>\<^verbatim>\<open>1[0-2]|0[1-9]|[1-9]\<close>\<close>

definition re_m :: matcher where
  "re_m =
     alt (seq (one_of (in_range 49 49)) (one_of (in_range 48 50)))
    (alt (seq (one_of (in_range 48 48)) (one_of (in_range 49 57)))
         (one_of (in_range 49 57)))"

text \<open>\<^verbatim>\<open>\d\d\d\d\<close>\<close>

definition re_Y :: matcher where
  "re_Y = seq (one_of is_decimal) (seq (one_of is_decimal)
            (seq (one_of is_decimal) (one_of is_decimal)))"

text \<open>\<^verbatim>\<open>\.\<close>\<close>

definition re_dot :: matcher where
  "re_dot = one_of (in_range 46 46)"

text \<open>
  The matches of the whole expression, in the matcher's order: the groups \<open>d\<close>, \<open>m\<close>
  and \<open>Y\<close>, and the unconverted rest. \<open>re.match\<close> returns the first.
\<close>

definition format_regex_match :: "pystr \<Rightarrow> ((pystr \<times> pystr \<times> pystr) \<times> pystr) list" where
  "format_regex_match s =
     concat (map (\<lambda>(d, r1).
       concat (map (\<lambda>(x, r2).
         concat (map (\<lambda>(m, r3).
           concat (map (\<lambda>(x', r4).
             map (\<lambda>(y, r5). ((d, m, y), r5)) (re_Y r4))
           (re_dot r3)))
         (re_m r2)))
       (re_dot r1)))
     (re_d s))"

text \<open>
  \<open>int()\<close> on the texts the groups can hold: leading spaces are skipped, then every
  character is a decimal digit of any script. \<open>None\<close> stands for the \<open>ValueError\<close> of
  any other text, which the regular expressions exclude.
\<close>

definition digit_val :: "pychar \<Rightarrow> nat" where
  "digit_val c = (case todecimal c of None \<Rightarrow> 0 | Some v \<Rightarrow> v)"

definition py_int :: "pystr \<Rightarrow> nat option" where
  "py_int s =
     (let t = dropWhile (\<lambda>c. c = 32) s
      in if t = [] \<or> \<not> list_all is_decimal t then None
         else Some (foldl (\<lambda>a c. 10 * a + digit_val c) 0 t))"

text \<open>
  \<open>strptime(value, "%d.%m.%Y").date()\<close>; \<open>None\<close> is a \<open>ValueError\<close>, whose message
  \<open>Birthday\<close> replaces.
\<close>

definition strptime_dmY :: "pystr \<Rightarrow> date option" where
  "strptime_dmY s =
     (case format_regex_match s of
        [] \<Rightarrow> None
      | ((d, m, y), rest) # _ \<Rightarrow>
          if rest \<noteq> [] then None
          else (case (py_int y, py_int m, py_int d) of
                  (Some yy, Some mm, Some dd) \<Rightarrow>
                    (case date_new yy mm dd of Inl e \<Rightarrow> None | Inr b \<Rightarrow> Some b)
                | _ \<Rightarrow> None))"

text \<open>
  \<^verbatim>\<open>
  class Birthday(Field):
      def __init__(self, value):
          try:
              self.value = datetime.strptime(value, "%d.%m.%Y").date()
          except ValueError:
              raise ValueError("Invalid date format. Use DD.MM.YYYY")
  \<close>
\<close>

definition Birthday :: "pystr \<Rightarrow> error + date" where
  "Birthday v =
     (case strptime_dmY v of
        None \<Rightarrow> Inl (ValueError (ustr ''Invalid date format. Use DD.MM.YYYY''))
      | Some b \<Rightarrow> Inr b)"

text \<open>
  \<open>strftime('%d.%m.%Y')\<close> as Python documents it: \<open>%d\<close> and \<open>%m\<close> are zero-padded
  to two digits, \<open>%Y\<close> is the year with century, 0001 to 9999. (The date's fields are
  below 100 and 10000.)
\<close>

definition digit_chr :: "nat \<Rightarrow> pychar" where
  "digit_chr k = 48 + k mod 10"

definition pad2 :: "nat \<Rightarrow> pystr" where
  "pad2 n = [digit_chr (n div 10), digit_chr n]"

definition pad4 :: "nat \<Rightarrow> pystr" where
  "pad4 n = [digit_chr (n div 1000), digit_chr (n div 100), digit_chr (n div 10), digit_chr n]"

definition strftime_dmY :: "date \<Rightarrow> pystr" where
  "strftime_dmY b = pad2 (day b) @ ustr ''.'' @ pad2 (month b) @ ustr ''.'' @ pad4 (year b)"

section \<open>Record\<close>

text \<open>
  \<^verbatim>\<open>
  class Record:
      def __init__(self, name):
          self.name = Name(name)
          self.phones = []
          self.birthday = None
  \<close>
  A method that mutates the record returns the exception it raised, if any, and the
  state of the record when it returns or raises.
\<close>

record Record =
  name :: pystr
  phones :: "pystr list"
  birthday :: "date option"

definition Record_init :: "pystr \<Rightarrow> error + Record" where
  "Record_init nm =
     (case Name nm of
        Inl e \<Rightarrow> Inl e
      | Inr n \<Rightarrow> Inr \<lparr>name = n, phones = [], birthday = None\<rparr>)"

text \<open>\<^verbatim>\<open>self.phones.append(Phone(phone))\<close>\<close>

definition add_phone :: "pystr \<Rightarrow> Record \<Rightarrow> error option \<times> Record" where
  "add_phone phone r =
     (case Phone phone of
        Inl e \<Rightarrow> (Some e, r)
      | Inr p \<Rightarrow> (None, r\<lparr>phones := phones r @ [p]\<rparr>))"

text \<open>
  \<^verbatim>\<open>
  def edit_phone(self, old_phone, new_phone):
      for i, p in enumerate(self.phones):
          if p.value == old_phone:
              self.phones[i] = Phone(new_phone)
              return
      raise ValueError("Phone number not found.")
  \<close>
  \<open>edit_phone_from i\<close> is the loop from index \<open>i\<close> on.
\<close>

function edit_phone_from :: "nat \<Rightarrow> pystr \<Rightarrow> pystr \<Rightarrow> Record \<Rightarrow> error option \<times> Record" where
  "edit_phone_from i old_phone new_phone r =
     (if i < length (phones r) then
        if phones r ! i = old_phone then
          (case Phone new_phone of
             Inl e \<Rightarrow> (Some e, r)
           | Inr p \<Rightarrow> (None, r\<lparr>phones := (phones r)[i := p]\<rparr>))
        else edit_phone_from (Suc i) old_phone new_phone r
      else (Some (ValueError (ustr ''Phone number not found.'')), r))"
  by pat_completeness auto
termination
  by (relation "measure (\<lambda>(i, old_phone, new_phone, r). length (phones r) - i)") auto

definition edit_phone :: "pystr \<Rightarrow> pystr \<Rightarrow> Record \<Rightarrow> error option \<times> Record" where
  "edit_phone old_phone new_phone r = edit_phone_from 0 old_phone new_phone r"

text \<open>\<^verbatim>\<open>self.birthday = Birthday(birthday)\<close>\<close>

definition add_birthday :: "pystr \<Rightarrow> Record \<Rightarrow> error option \<times> Record" where
  "add_birthday b r =
     (case Birthday b of
        Inl e \<Rightarrow> (Some e, r)
      | Inr d \<Rightarrow> (None, r\<lparr>birthday := Some d\<rparr>))"

section \<open>AddressBook\<close>

text \<open>
  \<open>AddressBook\<close> is a \<open>UserDict\<close>: its \<open>data\<close> is a \<open>dict\<close> from names to records,
  which keeps the keys in insertion order. It is the list of its items in that order.
  Assigning to a key that is present replaces the value in place, assigning to a new
  key appends the item: \<open>AList.update\<close>. A record found in the book and then mutated
  is the object the book holds, so the book holds its new state under the same key:
  \<open>AList.update\<close> again.
  \<^verbatim>\<open>
  def add_record(self, record):
      self.data[record.name.value] = record

  def find(self, name):
      return self.data.get(name)

  def delete(self, name):
      if name in self.data:
          del self.data[name]
      else:
          raise ValueError("Record not found.")
  \<close>
\<close>

type_synonym AddressBook = "(pystr \<times> Record) list"

definition add_record :: "Record \<Rightarrow> AddressBook \<Rightarrow> AddressBook" where
  "add_record record book = AList.update (name record) record book"

definition AddressBook_find :: "pystr \<Rightarrow> AddressBook \<Rightarrow> Record option" where
  "AddressBook_find nm book = map_of book nm"

definition AddressBook_delete :: "pystr \<Rightarrow> AddressBook \<Rightarrow> error option \<times> AddressBook" where
  "AddressBook_delete nm book =
     (if map_of book nm \<noteq> None then (None, AList.delete nm book)
      else (Some (ValueError (ustr ''Record not found.'')), book))"

section \<open>Upcoming birthdays\<close>

text \<open>
  \<^verbatim>\<open>
  def get_upcoming_birthdays(address_book):
      upcoming_birthdays = []
      today = datetime.today().date()
      next_week = today + timedelta(days=7)

      for record in address_book.values():
          if record.birthday:
              birthday = record.birthday.value
              next_birthday = birthday.replace(year=today.year)
              if next_birthday < today:
                  next_birthday = next_birthday.replace(year=today.year + 1)
              if today <= next_birthday <= next_week:
                  upcoming_birthdays.append(record)

      return upcoming_birthdays
  \<close>
  The date of the clock, \<open>today\<close>, is a parameter. \<open>next_birthday\<close> is the body of the
  loop up to the test of the window; \<open>upcoming_loop\<close> is the loop over the records
  left, with the list built so far.
\<close>

definition next_birthday :: "date \<Rightarrow> date \<Rightarrow> error + date" where
  "next_birthday today b =
     (case replace_year b (year today) of
        Inl e \<Rightarrow> Inl e
      | Inr nb \<Rightarrow> if date_lt nb today then replace_year nb (year today + 1) else Inr nb)"

fun upcoming_loop :: "date \<Rightarrow> date \<Rightarrow> Record list \<Rightarrow> Record list \<Rightarrow> error + Record list" where
  "upcoming_loop today next_week [] upcoming_birthdays = Inr upcoming_birthdays"
| "upcoming_loop today next_week (record # records) upcoming_birthdays =
     (case birthday record of
        None \<Rightarrow> upcoming_loop today next_week records upcoming_birthdays
      | Some b \<Rightarrow>
          (case next_birthday today b of
             Inl e \<Rightarrow> Inl e
           | Inr nb \<Rightarrow>
               upcoming_loop today next_week records
                 (if date_le today nb \<and> date_le nb next_week
                  then upcoming_birthdays @ [record] else upcoming_birthdays)))"

definition get_upcoming_birthdays :: "date \<Rightarrow> AddressBook \<Rightarrow> error + Record list" where
  "get_upcoming_birthdays today address_book =
     (case date_add_timedelta today 7 of
        Inl e \<Rightarrow> Inl e
      | Inr next_week \<Rightarrow> upcoming_loop today next_week (map snd address_book) [])"

text \<open>
  The query in the words of the specification, to compare with the code. The
  anniversary is the birthday with its year replaced by today's year, advanced by one
  year if that date is strictly before today; a record is upcoming when it has a
  birthday whose anniversary lies in the window from today to \<open>next_week\<close>, both
  included. \<open>anniversary_defined\<close> says that the dates this takes exist in the
  calendar.
\<close>

definition valid_ymd :: "nat \<Rightarrow> nat \<Rightarrow> nat \<Rightarrow> bool" where
  "valid_ymd y m d =
     (1 \<le> y \<and> y \<le> 9999 \<and> 1 \<le> m \<and> m \<le> 12 \<and> 1 \<le> d \<and> d \<le> days_in_month y m)"

definition anniversary :: "date \<Rightarrow> date \<Rightarrow> date" where
  "anniversary today b =
     (let a = \<lparr>year = year today, month = month b, day = day b\<rparr>
      in if date_lt a today
         then \<lparr>year = year today + 1, month = month b, day = day b\<rparr> else a)"

definition anniversary_defined :: "date \<Rightarrow> date \<Rightarrow> bool" where
  "anniversary_defined today b =
     (valid_ymd (year today) (month b) (day b) \<and>
      (if date_lt \<lparr>year = year today, month = month b, day = day b\<rparr> today
       then valid_ymd (year today + 1) (month b) (day b) else True))"

definition is_upcoming :: "date \<Rightarrow> date \<Rightarrow> Record \<Rightarrow> bool" where
  "is_upcoming today next_week r =
     (case birthday r of
        None \<Rightarrow> False
      | Some b \<Rightarrow>
          date_le today (anniversary today b) \<and> date_le (anniversary today b) next_week)"

section \<open>The commands\<close>

text \<open>
  A command takes the argument list and the book and returns a string; the book is
  mutated. The body of a command returns the string, or the exception it raised, and
  the book as it is then.
  \<^verbatim>\<open>
  def input_error(func):
      def wrapper(*args, **kwargs):
          try:
              return func(*args, **kwargs)
          except (ValueError, IndexError) as e:
              return str(e)
      return wrapper
  \<close>
\<close>

type_synonym command = "pystr list \<Rightarrow> AddressBook \<Rightarrow> (error + pystr) \<times> AddressBook"

text \<open>\<open>str(e)\<close>, and whether \<open>except (ValueError, IndexError)\<close> catches \<open>e\<close>.\<close>

fun error_str :: "error \<Rightarrow> pystr" where
  "error_str (ValueError msg) = msg"
| "error_str (IndexError msg) = msg"
| "error_str (OverflowError msg) = msg"
| "error_str (AttributeError msg) = msg"

fun caught :: "error \<Rightarrow> bool" where
  "caught (ValueError msg) = True"
| "caught (IndexError msg) = True"
| "caught (OverflowError msg) = False"
| "caught (AttributeError msg) = False"

definition input_error :: "command \<Rightarrow> command" where
  "input_error func args book =
     (case func args book of
        (Inr s, book') \<Rightarrow> (Inr s, book')
      | (Inl e, book') \<Rightarrow> if caught e then (Inr (error_str e), book') else (Inl e, book'))"

text \<open>
  \<open>str(n)\<close>, and the messages of the interpreter: of unpacking a list of the wrong
  length into \<open>k\<close> names (\<open>at_least\<close> when a starred name takes the rest) and of
  indexing a list out of range.
\<close>

fun str_nat :: "nat \<Rightarrow> pystr" where
  "str_nat n = (if n < 10 then [48 + n] else str_nat (n div 10) @ [48 + n mod 10])"

definition unpack_error :: "bool \<Rightarrow> nat \<Rightarrow> nat \<Rightarrow> error" where
  "unpack_error at_least k n =
     (if n < k then
        ValueError (ustr ''not enough values to unpack (expected ''
          @ (if at_least then ustr ''at least '' else []) @ str_nat k
          @ ustr '', got '' @ str_nat n @ ustr '')'')
      else ValueError (ustr ''too many values to unpack (expected '' @ str_nat k @ ustr '')''))"

definition index_error :: error where
  "index_error = IndexError (ustr ''list index out of range'')"

text \<open>\<open>sep.join(xs)\<close>\<close>

fun join :: "pystr \<Rightarrow> pystr list \<Rightarrow> pystr" where
  "join sep [] = []"
| "join sep [x] = x"
| "join sep (x # y # ys) = x @ sep @ join sep (y # ys)"

text \<open>
  \<^verbatim>\<open>
  @input_error
  def add_contact(args, book: AddressBook):
      name, phone, *_ = args
      record = book.find(name)
      message = "Contact updated."
      if record is None:
          record = Record(name)
          book.add_record(record)
          message = "Contact added."
      if phone:
          record.add_phone(phone)
      return message
  \<close>
\<close>

definition add_contact_body :: command where
  "add_contact_body args book =
     (case args of
        nm # phone # _ \<Rightarrow>
          (case (case AddressBook_find nm book of
                   Some record \<Rightarrow> Inr (record, ustr ''Contact updated.'', book)
                 | None \<Rightarrow>
                     (case Record_init nm of
                        Inl e \<Rightarrow> Inl e
                      | Inr record \<Rightarrow>
                          Inr (record, ustr ''Contact added.'', add_record record book))) of
             Inl e \<Rightarrow> (Inl e, book)
           | Inr (record, message, book1) \<Rightarrow>
               if phone \<noteq> [] then
                 (case add_phone phone record of
                    (Some e, record') \<Rightarrow> (Inl e, AList.update nm record' book1)
                  | (None, record') \<Rightarrow> (Inr message, AList.update nm record' book1))
               else (Inr message, book1))
      | _ \<Rightarrow> (Inl (unpack_error True 2 (length args)), book))"

definition add_contact :: command where
  "add_contact = input_error add_contact_body"

text \<open>
  \<^verbatim>\<open>
  @input_error
  def change_phone(args, book: AddressBook):
      name, old_phone, new_phone = args
      record = book.find(name)
      if record is None:
          raise ValueError("Contact not found.")
      record.edit_phone(old_phone, new_phone)
      return "Phone number updated."
  \<close>
\<close>

definition change_phone_body :: command where
  "change_phone_body args book =
     (case args of
        [nm, old_phone, new_phone] \<Rightarrow>
          (case AddressBook_find nm book of
             None \<Rightarrow> (Inl (ValueError (ustr ''Contact not found.'')), book)
           | Some record \<Rightarrow>
               (case edit_phone old_phone new_phone record of
                  (Some e, record') \<Rightarrow> (Inl e, AList.update nm record' book)
                | (None, record') \<Rightarrow>
                    (Inr (ustr ''Phone number updated.''), AList.update nm record' book)))
      | _ \<Rightarrow> (Inl (unpack_error False 3 (length args)), book))"

definition change_phone :: command where
  "change_phone = input_error change_phone_body"

text \<open>
  \<^verbatim>\<open>
  @input_error
  def show_phones(args, book: AddressBook):
      name = args[0]
      record = book.find(name)
      if record is None:
          raise ValueError("Contact not found.")
      phones = [p.value for p in record.phones if p.value is not None]
      return f"Phones: {'; '.join(phones)}" if phones else "No phones found."
  \<close>
  The value of a \<open>Phone\<close> is never \<open>None\<close>.
\<close>

definition show_phones_body :: command where
  "show_phones_body args book =
     (case args of
        [] \<Rightarrow> (Inl index_error, book)
      | nm # _ \<Rightarrow>
          (case AddressBook_find nm book of
             None \<Rightarrow> (Inl (ValueError (ustr ''Contact not found.'')), book)
           | Some record \<Rightarrow>
               (if phones record \<noteq> []
                then (Inr (ustr ''Phones: '' @ join (ustr ''; '') (phones record)), book)
                else (Inr (ustr ''No phones found.''), book))))"

definition show_phones :: command where
  "show_phones = input_error show_phones_body"

text \<open>
  \<^verbatim>\<open>
  @input_error
  def add_birthday(args, book: AddressBook):
      name, birthday = args
      record = book.find(name)
      if record is None:
          raise ValueError("Contact not found.")
      record.add_birthday(birthday)
      return "Birthday added."
  \<close>
  The command has the name of the method it calls: it is \<open>add_birthday_cmd\<close> here.
\<close>

definition add_birthday_body :: command where
  "add_birthday_body args book =
     (case args of
        [nm, b] \<Rightarrow>
          (case AddressBook_find nm book of
             None \<Rightarrow> (Inl (ValueError (ustr ''Contact not found.'')), book)
           | Some record \<Rightarrow>
               (case add_birthday b record of
                  (Some e, record') \<Rightarrow> (Inl e, AList.update nm record' book)
                | (None, record') \<Rightarrow>
                    (Inr (ustr ''Birthday added.''), AList.update nm record' book)))
      | _ \<Rightarrow> (Inl (unpack_error False 2 (length args)), book))"

definition add_birthday_cmd :: command where
  "add_birthday_cmd = input_error add_birthday_body"

text \<open>
  \<^verbatim>\<open>
  @input_error
  def show_birthday(args, book: AddressBook):
      name = args[0]
      record = book.find(name)
      if record is None:
          raise ValueError("Contact not found.")
      if record.birthday:
          return f"Birthday: {record.birthday.value.strftime('%d.%m.%Y')}"
      return "No birthday set."
  \<close>
\<close>

definition show_birthday_body :: command where
  "show_birthday_body args book =
     (case args of
        [] \<Rightarrow> (Inl index_error, book)
      | nm # _ \<Rightarrow>
          (case AddressBook_find nm book of
             None \<Rightarrow> (Inl (ValueError (ustr ''Contact not found.'')), book)
           | Some record \<Rightarrow>
               (case birthday record of
                  Some b \<Rightarrow> (Inr (ustr ''Birthday: '' @ strftime_dmY b), book)
                | None \<Rightarrow> (Inr (ustr ''No birthday set.''), book))))"

definition show_birthday :: command where
  "show_birthday = input_error show_birthday_body"

text \<open>
  \<^verbatim>\<open>
  @input_error
  def birthdays(args, book: AddressBook):
      upcoming = get_upcoming_birthdays(book)
      if upcoming:
          return "\n".join(
              f"{record.name.value}: {record.birthday.value.strftime('%d.%m.%Y')}"
              for record in upcoming
          )
      return "No upcoming birthdays."
  \<close>
  \<open>birthday_lines\<close> is the generator: one line per record, or the \<open>AttributeError\<close> of
  a record whose birthday is \<open>None\<close>.
\<close>

fun birthday_lines :: "Record list \<Rightarrow> error + pystr list" where
  "birthday_lines [] = Inr []"
| "birthday_lines (record # records) =
     (case birthday record of
        None \<Rightarrow> Inl (AttributeError ([39] @ ustr ''NoneType'' @ [39] @ ustr '' object has no attribute ''
                    @ [39] @ ustr ''value'' @ [39]))
      | Some b \<Rightarrow>
          (case birthday_lines records of
             Inl e \<Rightarrow> Inl e
           | Inr ls \<Rightarrow> Inr ((name record @ ustr '': '' @ strftime_dmY b) # ls)))"

definition birthdays_body :: "date \<Rightarrow> command" where
  "birthdays_body today args book =
     (case get_upcoming_birthdays today book of
        Inl e \<Rightarrow> (Inl e, book)
      | Inr upcoming \<Rightarrow>
          if upcoming \<noteq> [] then
            (case birthday_lines upcoming of
               Inl e \<Rightarrow> (Inl e, book)
             | Inr ls \<Rightarrow> (Inr (join [10] ls), book))
          else (Inr (ustr ''No upcoming birthdays.''), book))"

definition birthdays :: "date \<Rightarrow> command" where
  "birthdays today = input_error (birthdays_body today)"

text \<open>
  \<^verbatim>\<open>
  @input_error
  def delete_contact(args, book: AddressBook):
      name = args[0]
      book.delete(name)
      return "Contact deleted."
  \<close>
\<close>

definition delete_contact_body :: command where
  "delete_contact_body args book =
     (case args of
        [] \<Rightarrow> (Inl index_error, book)
      | nm # _ \<Rightarrow>
          (case AddressBook_delete nm book of
             (Some e, book') \<Rightarrow> (Inl e, book')
           | (None, book') \<Rightarrow> (Inr (ustr ''Contact deleted.''), book')))"

definition delete_contact :: command where
  "delete_contact = input_error delete_contact_body"

section \<open>Properties of the fields\<close>

lemma todecimal_ascii: "ascii_digit c \<Longrightarrow> todecimal c = Some (c - 48)"
  by (simp add: ascii_digit_def todecimal_def decimal_zeros_def)

lemma is_decimal_ascii: "ascii_digit c \<Longrightarrow> is_decimal c"
  by (simp add: is_decimal_def todecimal_ascii)

lemma validate_iff:
  assumes "p = [] \<or> last p \<noteq> 10"
  shows "validate p \<longleftrightarrow> length p = 10 \<and> list_all is_decimal p"
proof (cases "length p \<le> 10")
  case True
  then show ?thesis by (auto simp: validate_def Let_def)
next
  case False
  then have ne: "drop 10 p \<noteq> []" by simp
  have "last (drop 10 p) = last p" using False by (simp add: last_drop)
  moreover have "last p \<noteq> 10" using assms False by auto
  ultimately have "drop 10 p \<noteq> [10]" by auto
  with False ne show ?thesis by (auto simp: validate_def Let_def)
qed

text \<open>
  C6, as amended. \<open>Name(s)\<close> fails exactly when \<open>s\<close> is the empty string, with
  \<open>ValueError("Name cannot be empty.")\<close>; every non-empty string, a whitespace-only
  one included, is accepted and stored verbatim.
\<close>

theorem Name_spec:
  "Name [] = Inl (ValueError (ustr ''Name cannot be empty.''))
   \<and> (s \<noteq> [] \<longrightarrow> Name s = Inr s)
   \<and> (\<forall>e. Name s = Inl e \<longrightarrow> s = [] \<and> e = ValueError (ustr ''Name cannot be empty.''))"
  by (simp add: Name_def)

theorem Name_spec_witness:
  "Name (ustr ''Alice'') = Inr (ustr ''Alice'') \<and> Name (ustr ''  '') = Inr (ustr ''  '')"
  using Name_spec [of "ustr ''Alice''"] Name_spec [of "ustr ''  ''"] by simp

text \<open>
  C6 as stated fails: the whitespace-only name \<open>" "\<close> is accepted, and the message of
  the failure ends in a full stop.
\<close>

theorem Name_whitespace_counterexample:
  "Name (ustr '' '') = Inr (ustr '' '')
   \<and> Name [] \<noteq> Inl (ValueError (ustr ''Name cannot be empty''))"
  by (simp add: Name_def)

text \<open>
  C2, as amended. For every string \<open>p\<close> that does not end in a line feed, \<open>Phone(p)\<close>
  succeeds if and only if \<open>p\<close> is exactly ten decimal digits (the characters \<open>\d\<close>
  matches: the ASCII digits and the decimal digits of the other scripts); it then
  stores \<open>p\<close> verbatim, and otherwise raises
  \<open>ValueError("Invalid phone number format.")\<close>. Ten ASCII digits are always accepted.
\<close>

theorem Phone_spec:
  assumes "p = [] \<or> last p \<noteq> 10"
  shows "Phone p =
           (if length p = 10 \<and> list_all is_decimal p then Inr p
            else Inl (ValueError (ustr ''Invalid phone number format.'')))
         \<and> (length p = 10 \<and> list_all ascii_digit p \<longrightarrow> Phone p = Inr p)"
proof -
  have "list_all ascii_digit p \<Longrightarrow> list_all is_decimal p"
    by (simp add: list_all_iff is_decimal_ascii)
  then show ?thesis
    unfolding Phone_def validate_iff [OF assms] by auto
qed

theorem Phone_spec_witness:
  "Phone (ustr ''0501234567'') = Inr (ustr ''0501234567'')
   \<and> Phone (ustr ''12345'') = Inl (ValueError (ustr ''Invalid phone number format.''))
   \<and> Phone (ustr ''abcdefghij'') = Inl (ValueError (ustr ''Invalid phone number format.''))"
proof -
  have a: "Phone (ustr ''0501234567'') = Inr (ustr ''0501234567'')"
    using Phone_spec [of "ustr ''0501234567''"]
    by (simp add: ascii_digit_def is_decimal_def todecimal_def decimal_zeros_def)
  have b: "Phone (ustr ''12345'') = Inl (ValueError (ustr ''Invalid phone number format.''))"
    using Phone_spec [of "ustr ''12345''"] by simp
  have c: "Phone (ustr ''abcdefghij'') = Inl (ValueError (ustr ''Invalid phone number format.''))"
    using Phone_spec [of "ustr ''abcdefghij''"]
    by (simp add: is_decimal_def todecimal_def decimal_zeros_def)
  from a b c show ?thesis by blast
qed

text \<open>
  C2 as stated fails: the ten Arabic-Indic digits U+0660 to U+0669 are accepted although
  none of them is an ASCII digit, and the message of a failure ends in a full stop.
\<close>

theorem Phone_ascii_counterexample:
  "Phone [1632, 1633, 1634, 1635, 1636, 1637, 1638, 1639, 1640, 1641]
     = Inr [1632, 1633, 1634, 1635, 1636, 1637, 1638, 1639, 1640, 1641]
   \<and> \<not> list_ex ascii_digit [1632, 1633, 1634, 1635, 1636, 1637, 1638, 1639, 1640, 1641]
   \<and> Phone (ustr ''12345'') \<noteq> Inl (ValueError (ustr ''Invalid phone number format''))"
  by (simp add: Phone_def validate_def is_decimal_def todecimal_def decimal_zeros_def
      ascii_digit_def)

lemma Phone_value: "Phone v = Inr p \<Longrightarrow> p = v \<and> validate v"
  by (simp add: Phone_def split: if_splits)

lemma Phone_invalid:
  "\<not> validate v \<Longrightarrow> Phone v = Inl (ValueError (ustr ''Invalid phone number format.''))"
  by (simp add: Phone_def)

lemma validate_nonempty: "validate v \<Longrightarrow> v \<noteq> []"
  by (auto simp: validate_def Let_def)

section \<open>Properties of Record and AddressBook\<close>

declare edit_phone_from.simps [simp del]

text \<open>
  The loop from index \<open>i\<close>: it replaces the first phone equal to \<open>old\<close> at or after
  \<open>i\<close>, if there is one and the new phone is valid.
\<close>

lemma edit_phone_from_spec:
  "edit_phone_from i old new r =
     (if old \<in> set (drop i (phones r)) then
        (case Phone new of
           Inl e \<Rightarrow> (Some e, r)
         | Inr p \<Rightarrow>
             (None, r\<lparr>phones :=
                (phones r)[i + length (takeWhile (\<lambda>x. x \<noteq> old) (drop i (phones r))) := p]\<rparr>))
      else (Some (ValueError (ustr ''Phone number not found.'')), r))"
proof (induction i old new r rule: edit_phone_from.induct)
  case (1 i old new r)
  show ?case
  proof (cases "i < length (phones r)")
    case False
    then show ?thesis by (subst edit_phone_from.simps) simp
  next
    case True
    then have d: "drop i (phones r) = phones r ! i # drop (Suc i) (phones r)"
      by (simp add: Cons_nth_drop_Suc)
    show ?thesis
    proof (cases "phones r ! i = old")
      case hit: True
      with True d show ?thesis
        by (subst edit_phone_from.simps) (simp split: sum.splits)
    next
      case miss: False
      have "edit_phone_from i old new r = edit_phone_from (Suc i) old new r"
        using True miss by (subst edit_phone_from.simps) simp
      with True miss d "1.IH" show ?thesis by (simp split: sum.splits)
    qed
  qed
qed

text \<open>
  C4, as amended. \<open>edit_phone(old, new)\<close> replaces the first phone equal to \<open>old\<close> by
  the validated \<open>Phone(new)\<close>, whose value is \<open>new\<close>, at the same position, all other
  phones staying as they are; if no phone equals \<open>old\<close> it raises
  \<open>ValueError("Phone number not found.")\<close>, the message ending in a full stop; if a
  phone equals \<open>old\<close> and \<open>new\<close> is invalid it raises the error of \<open>Phone(new)\<close>; and
  whenever it raises, the record is unchanged.
\<close>

theorem edit_phone_spec:
  "(old \<notin> set (phones r) \<longrightarrow>
      edit_phone old new r = (Some (ValueError (ustr ''Phone number not found.'')), r))
   \<and> (old \<in> set (phones r) \<longrightarrow>
        (\<forall>e. Phone new = Inl e \<longrightarrow> edit_phone old new r = (Some e, r))
        \<and> (\<forall>p. Phone new = Inr p \<longrightarrow>
             p = new
             \<and> edit_phone old new r =
                 (None, r\<lparr>phones := takeWhile (\<lambda>x. x \<noteq> old) (phones r) @ new #
                                     tl (dropWhile (\<lambda>x. x \<noteq> old) (phones r))\<rparr>)))
   \<and> (\<forall>e r'. edit_phone old new r = (Some e, r') \<longrightarrow> r' = r)"
proof -
  have upd: "xs[length (takeWhile P xs) := v] = takeWhile P xs @ v # tl (dropWhile P xs)"
    if "\<exists>x\<in>set xs. \<not> P x" for xs :: "pystr list" and P v
    using that by (induction xs) auto
  have pn: "Phone new = Inr p \<Longrightarrow> p = new" for p
    by (simp add: Phone_def split: if_splits)
  show ?thesis
    unfolding edit_phone_def edit_phone_from_spec
    by (auto simp: upd dest: pn split: sum.splits)
qed

theorem edit_phone_spec_witness:
  "edit_phone (ustr ''1111111111'') (ustr ''2222222222'')
      \<lparr>name = ustr ''A'', phones = [ustr ''1111111111''], birthday = None\<rparr>
     = (None, \<lparr>name = ustr ''A'', phones = [ustr ''2222222222''], birthday = None\<rparr>)
   \<and> edit_phone (ustr ''9999999999'') (ustr ''2222222222'')
      \<lparr>name = ustr ''A'', phones = [ustr ''1111111111''], birthday = None\<rparr>
     = (Some (ValueError (ustr ''Phone number not found.'')),
        \<lparr>name = ustr ''A'', phones = [ustr ''1111111111''], birthday = None\<rparr>)"
proof -
  have v: "Phone (ustr ''2222222222'') = Inr (ustr ''2222222222'')"
    by (simp add: Phone_def validate_def is_decimal_def todecimal_def decimal_zeros_def)
  show ?thesis
    using edit_phone_spec [of "ustr ''1111111111''"
        "\<lparr>name = ustr ''A'', phones = [ustr ''1111111111''], birthday = None\<rparr>"
        "ustr ''2222222222''"]
      edit_phone_spec [of "ustr ''9999999999''"
        "\<lparr>name = ustr ''A'', phones = [ustr ''1111111111''], birthday = None\<rparr>"
        "ustr ''2222222222''"]
      v
    by simp
qed

text \<open>
  C4 as stated fails in the message only: the error of a missing phone is not
  \<open>"Phone number not found"\<close> but \<open>"Phone number not found."\<close>.
\<close>

theorem edit_phone_message_counterexample:
  "edit_phone (ustr ''9999999999'') (ustr ''2222222222'')
      \<lparr>name = ustr ''A'', phones = [ustr ''1111111111''], birthday = None\<rparr>
     \<noteq> (Some (ValueError (ustr ''Phone number not found'')),
        \<lparr>name = ustr ''A'', phones = [ustr ''1111111111''], birthday = None\<rparr>)"
  by (simp add: edit_phone_def edit_phone_from_spec)

text \<open>
  C8. \<open>add_record(r)\<close> has no failing path: it stores \<open>r\<close> under the key
  \<open>r.name.value\<close>, whatever was stored there before; afterwards \<open>find\<close> of that key
  returns \<open>r\<close>, \<open>find\<close> of every other key returns what it returned before, and the
  keys are the old keys and \<open>r.name.value\<close>.
\<close>

theorem add_record_spec:
  "AddressBook_find (name r) (add_record r book) = Some r
   \<and> (\<forall>k. k \<noteq> name r \<longrightarrow>
         AddressBook_find k (add_record r book) = AddressBook_find k book)
   \<and> fst ` set (add_record r book) = insert (name r) (fst ` set book)"
  by (simp add: add_record_def AddressBook_find_def update_conv' dom_update)

theorem add_record_spec_witness:
  "AddressBook_find (ustr ''A'')
     (add_record \<lparr>name = ustr ''A'', phones = [ustr ''2222222222''], birthday = None\<rparr>
        [(ustr ''A'', \<lparr>name = ustr ''A'', phones = [], birthday = None\<rparr>),
         (ustr ''B'', \<lparr>name = ustr ''B'', phones = [], birthday = None\<rparr>)])
     = Some \<lparr>name = ustr ''A'', phones = [ustr ''2222222222''], birthday = None\<rparr>
   \<and> AddressBook_find (ustr ''B'')
     (add_record \<lparr>name = ustr ''A'', phones = [ustr ''2222222222''], birthday = None\<rparr>
        [(ustr ''A'', \<lparr>name = ustr ''A'', phones = [], birthday = None\<rparr>),
         (ustr ''B'', \<lparr>name = ustr ''B'', phones = [], birthday = None\<rparr>)])
     = Some \<lparr>name = ustr ''B'', phones = [], birthday = None\<rparr>"
  using add_record_spec [of "\<lparr>name = ustr ''A'', phones = [ustr ''2222222222''], birthday = None\<rparr>"
      "[(ustr ''A'', \<lparr>name = ustr ''A'', phones = [], birthday = None\<rparr>),
        (ustr ''B'', \<lparr>name = ustr ''B'', phones = [], birthday = None\<rparr>)]"]
  by (simp add: AddressBook_find_def)

section \<open>Properties of the commands\<close>

text \<open>
  C10. When \<open>name\<close> keys a record of the book, \<open>add_contact([name, phone])\<close> returns a
  string and keeps the keys of the book and every other entry; the entry of \<open>name\<close> is
  the record found, with its name, its birthday and its phones in order, and with
  \<open>phone\<close> appended when \<open>phone\<close> is valid (and unchanged otherwise): the record is
  not replaced by a fresh one.
\<close>

theorem add_contact_existing:
  assumes "AddressBook_find nm book = Some r"
  shows "\<exists>msg book'. add_contact [nm, phone] book = (Inr msg, book')
           \<and> map fst book' = map fst book
           \<and> (\<forall>k. k \<noteq> nm \<longrightarrow> AddressBook_find k book' = AddressBook_find k book)
           \<and> AddressBook_find nm book' =
               Some (if validate phone then r\<lparr>phones := phones r @ [phone]\<rparr> else r)
           \<and> (validate phone \<longrightarrow> msg = ustr ''Contact updated.'')"
proof -
  from assms have key: "nm \<in> fst ` set book"
    by (auto simp: AddressBook_find_def dest: map_of_SomeD intro: rev_image_eqI)
  have keys: "map fst (AList.update nm x book) = map fst book" for x
    using key by (simp add: update_keys)
  show ?thesis
  proof (cases "validate phone")
    case True
    then have "Phone phone = Inr phone" by (simp add: Phone_def)
    with True assms show ?thesis
      using validate_nonempty [OF True]
      by (simp add: add_contact_def input_error_def add_contact_body_def add_phone_def
          AddressBook_find_def update_conv' keys)
  next
    case False
    with assms show ?thesis
      by (cases "phone = []")
        (simp_all add: add_contact_def input_error_def add_contact_body_def add_phone_def
          AddressBook_find_def update_conv' keys Phone_invalid)
  qed
qed

theorem add_contact_existing_witness:
  "\<exists>msg book'.
     add_contact [ustr ''A'', ustr ''2222222222'']
       [(ustr ''A'', \<lparr>name = ustr ''A'', phones = [ustr ''1111111111''],
                       birthday = Some \<lparr>year = 1990, month = 6, day = 12\<rparr>\<rparr>)]
       = (Inr msg, book')
     \<and> AddressBook_find (ustr ''A'') book' =
         Some \<lparr>name = ustr ''A'', phones = [ustr ''1111111111'', ustr ''2222222222''],
                birthday = Some \<lparr>year = 1990, month = 6, day = 12\<rparr>\<rparr>"
proof -
  have v: "validate (ustr ''2222222222'')"
    by (simp add: validate_def is_decimal_def todecimal_def decimal_zeros_def)
  have f: "AddressBook_find (ustr ''A'')
       [(ustr ''A'', \<lparr>name = ustr ''A'', phones = [ustr ''1111111111''],
                       birthday = Some \<lparr>year = 1990, month = 6, day = 12\<rparr>\<rparr>)]
     = Some \<lparr>name = ustr ''A'', phones = [ustr ''1111111111''],
              birthday = Some \<lparr>year = 1990, month = 6, day = 12\<rparr>\<rparr>"
    by (simp add: AddressBook_find_def)
  show ?thesis
    using add_contact_existing [OF f, of "ustr ''2222222222''"] v by auto
qed

section \<open>Properties of the upcoming-birthdays query\<close>

lemma date_new_Inr: "date_new y m d = Inr b \<Longrightarrow> b = \<lparr>year = y, month = m, day = d\<rparr>"
  by (simp add: date_new_def split: if_splits)

lemma date_new_Inl: "date_new y m d = Inl e \<Longrightarrow> \<exists>msg. e = ValueError msg"
  by (auto simp: date_new_def split: if_splits)

lemma date_new_valid:
  "valid_ymd y m d \<Longrightarrow> date_new y m d = Inr \<lparr>year = y, month = m, day = d\<rparr>"
  by (simp add: date_new_def valid_ymd_def)

lemma add_days_numeral:
  "add_days d (numeral k) =
     (case next_day d of None \<Rightarrow> None | Some d' \<Rightarrow> add_days d' (pred_numeral k))"
  by (simp add: numeral_eq_Suc)

text \<open>
  Where the anniversary is defined, the body of the loop computes it; and whatever the
  body computes is the anniversary.
\<close>

lemma next_birthday_defined:
  "anniversary_defined today b \<Longrightarrow> next_birthday today b = Inr (anniversary today b)"
  by (simp add: anniversary_defined_def next_birthday_def replace_year_def anniversary_def
      date_new_valid split: if_splits)

lemma next_birthday_Inr:
  "next_birthday today b = Inr nb \<Longrightarrow> nb = anniversary today b"
  by (auto simp: next_birthday_def replace_year_def anniversary_def Let_def
      split: sum.splits if_splits dest!: date_new_Inr)

lemma next_birthday_Inl: "next_birthday today b = Inl e \<Longrightarrow> \<exists>msg. e = ValueError msg"
  by (auto simp: next_birthday_def replace_year_def split: sum.splits if_splits
      dest: date_new_Inl)

text \<open>The loop: what it returns, when it returns, and what it raises.\<close>

lemma upcoming_loop_Inr:
  "upcoming_loop today nw rs acc = Inr res
     \<Longrightarrow> res = acc @ filter (is_upcoming today nw) rs"
proof (induction rs arbitrary: acc)
  case Nil
  then show ?case by simp
next
  case (Cons r rs)
  show ?case
  proof (cases "birthday r")
    case None
    with Cons show ?thesis by (simp add: is_upcoming_def)
  next
    case (Some b)
    with Cons.prems obtain nb where nb: "next_birthday today b = Inr nb"
      by (auto split: sum.splits)
    from next_birthday_Inr [OF nb] have eq: "nb = anniversary today b" .
    from Cons.prems Some nb
    have "upcoming_loop today nw rs
            (if date_le today nb \<and> date_le nb nw then acc @ [r] else acc) = Inr res"
      by simp
    from Cons.IH [OF this] Some eq show ?thesis by (simp add: is_upcoming_def)
  qed
qed

lemma upcoming_loop_returns:
  assumes "\<forall>r\<in>set rs. \<forall>b. birthday r = Some b \<longrightarrow> anniversary_defined today b"
  shows "\<exists>res. upcoming_loop today nw rs acc = Inr res"
  using assms
proof (induction rs arbitrary: acc)
  case Nil
  then show ?case by simp
next
  case (Cons r rs)
  then show ?case
    by (cases "birthday r") (auto simp: next_birthday_defined)
qed

lemma upcoming_loop_raises:
  assumes "r \<in> set rs" "birthday r = Some b" "next_birthday today b = Inl e"
  shows "\<exists>msg. upcoming_loop today nw rs acc = Inl (ValueError msg)"
  using assms
proof (induction rs arbitrary: acc)
  case Nil
  then show ?case by simp
next
  case (Cons x xs)
  show ?case
  proof (cases "birthday x")
    case None
    with Cons show ?thesis by auto
  next
    case (Some bx)
    show ?thesis
    proof (cases "next_birthday today bx")
      case (Inl ex)
      with Some next_birthday_Inl [OF Inl] show ?thesis by auto
    next
      case (Inr nb)
      with Some Cons show ?thesis by auto
    qed
  qed
qed

lemma upcoming_loop_Inl:
  "upcoming_loop today nw rs acc = Inl e \<Longrightarrow> \<exists>msg. e = ValueError msg"
proof (induction rs arbitrary: acc)
  case Nil
  then show ?case by simp
next
  case (Cons r rs)
  then show ?case
    by (cases "birthday r") (auto split: sum.splits dest: next_birthday_Inl)
qed

lemma upcoming_loop_birthday:
  "upcoming_loop today nw rs acc = Inr res \<Longrightarrow> \<forall>r\<in>set acc. birthday r \<noteq> None
     \<Longrightarrow> \<forall>r\<in>set res. birthday r \<noteq> None"
proof (induction rs arbitrary: acc)
  case Nil
  then show ?case by simp
next
  case (Cons r rs)
  show ?case
  proof (cases "birthday r")
    case None
    with Cons show ?thesis by simp
  next
    case (Some b)
    with Cons.prems obtain nb where nb: "next_birthday today b = Inr nb"
      by (auto split: sum.splits)
    let ?acc = "if date_le today nb \<and> date_le nb nw then acc @ [r] else acc"
    from Cons.prems Some nb have "upcoming_loop today nw rs ?acc = Inr res" by simp
    moreover from Cons.prems(2) Some have "\<forall>r\<in>set ?acc. birthday r \<noteq> None" by auto
    ultimately show ?thesis by (rule Cons.IH)
  qed
qed

text \<open>
  C1, as amended. For every address book and every date \<open>today\<close> such that
  \<open>today + 7 days\<close> is a date and the anniversary of every birthday in the book is
  defined (the birthday's day and month exist in today's year and, when that date is
  strictly before today, in the following year), \<open>get_upcoming_birthdays\<close> returns
  exactly the records, in the order of the book, that have a birthday whose anniversary
  lies in the inclusive window from \<open>today\<close> to \<open>today + 7 days\<close>; a record with no
  birthday is never included.
\<close>

theorem get_upcoming_birthdays_spec:
  assumes "date_add_timedelta today 7 = Inr next_week"
    and "\<forall>r\<in>snd ` set book. \<forall>b. birthday r = Some b \<longrightarrow> anniversary_defined today b"
  shows "get_upcoming_birthdays today book
           = Inr (filter (is_upcoming today next_week) (map snd book))
         \<and> (\<forall>r. birthday r = None \<longrightarrow> \<not> is_upcoming today next_week r)"
proof -
  from assms(2) obtain res where
    res: "upcoming_loop today next_week (map snd book) [] = Inr res"
    using upcoming_loop_returns [of "map snd book" today next_week "[]"] by auto
  from upcoming_loop_Inr [OF res] res assms(1) show ?thesis
    by (simp add: get_upcoming_birthdays_def is_upcoming_def)
qed

text \<open>
  The scenario of the specification: today is 10.06.2024; A, born 12.06.1990, is
  included; B, born 01.01.1990, and C, with no birthday, are not.
\<close>

theorem get_upcoming_birthdays_spec_witness:
  "get_upcoming_birthdays \<lparr>year = 2024, month = 6, day = 10\<rparr>
     [(ustr ''A'', \<lparr>name = ustr ''A'', phones = [],
                     birthday = Some \<lparr>year = 1990, month = 6, day = 12\<rparr>\<rparr>),
      (ustr ''B'', \<lparr>name = ustr ''B'', phones = [],
                     birthday = Some \<lparr>year = 1990, month = 1, day = 1\<rparr>\<rparr>),
      (ustr ''C'', \<lparr>name = ustr ''C'', phones = [], birthday = None\<rparr>)]
   = Inr [\<lparr>name = ustr ''A'', phones = [],
            birthday = Some \<lparr>year = 1990, month = 6, day = 12\<rparr>\<rparr>]"
proof -
  have w: "date_add_timedelta \<lparr>year = 2024, month = 6, day = 10\<rparr> 7
             = Inr \<lparr>year = 2024, month = 6, day = 17\<rparr>"
    by (simp add: date_add_timedelta_def add_days_numeral next_day_def days_in_month_def)
  have d: "anniversary_defined \<lparr>year = 2024, month = 6, day = 10\<rparr>
             \<lparr>year = 1990, month = 6, day = 12\<rparr>
           \<and> anniversary_defined \<lparr>year = 2024, month = 6, day = 10\<rparr>
             \<lparr>year = 1990, month = 1, day = 1\<rparr>"
    by (simp add: anniversary_defined_def valid_ymd_def days_in_month_def date_lt_def)
  show ?thesis
    using get_upcoming_birthdays_spec [OF w,
        of "[(ustr ''A'', \<lparr>name = ustr ''A'', phones = [],
                     birthday = Some \<lparr>year = 1990, month = 6, day = 12\<rparr>\<rparr>),
             (ustr ''B'', \<lparr>name = ustr ''B'', phones = [],
                     birthday = Some \<lparr>year = 1990, month = 1, day = 1\<rparr>\<rparr>),
             (ustr ''C'', \<lparr>name = ustr ''C'', phones = [], birthday = None\<rparr>)]"] d
    by (simp add: is_upcoming_def anniversary_def date_lt_def date_le_def)
qed

text \<open>
  C1 as stated fails: with today 10.06.2023 and a record born 29.02.2020 the query
  returns no list, it raises \<open>ValueError\<close>.
\<close>

theorem get_upcoming_birthdays_leap_day_counterexample:
  "get_upcoming_birthdays \<lparr>year = 2023, month = 6, day = 10\<rparr>
     [(ustr ''L'', \<lparr>name = ustr ''L'', phones = [],
                     birthday = Some \<lparr>year = 2020, month = 2, day = 29\<rparr>\<rparr>)]
   = Inl (ValueError (ustr ''day is out of range for month''))"
  by (simp add: get_upcoming_birthdays_def date_add_timedelta_def add_days_numeral
      next_day_def days_in_month_def is_leap_def next_birthday_def replace_year_def
      date_new_def date_lt_def date_le_def)

lemma replace_year_leap_day:
  assumes "month b = 2" "day b = 29" "\<not> is_leap y"
  shows "\<exists>msg. replace_year b y = Inl (ValueError msg)"
  using assms by (simp add: replace_year_def date_new_def days_in_month_def)

text \<open>
  C5. Whenever the book holds a record whose birthday is 29 February and the year of
  \<open>today\<close>, which the query substitutes into the birthday, is not a leap year, the
  query raises an error instead of returning a list. The witness is such a book and
  such a day, so the query is not total over leap-day birthdays.
\<close>

theorem get_upcoming_birthdays_leap_day:
  assumes "r \<in> snd ` set book" "birthday r = Some b" "month b = 2" "day b = 29"
    and "\<not> is_leap (year today)"
  shows "\<exists>e. get_upcoming_birthdays today book = Inl e"
proof (cases "date_add_timedelta today 7")
  case (Inl e)
  then show ?thesis by (simp add: get_upcoming_birthdays_def)
next
  case (Inr nw)
  from replace_year_leap_day [OF assms(3,4,5)]
  obtain msg where "next_birthday today b = Inl (ValueError msg)"
    by (auto simp: next_birthday_def)
  from upcoming_loop_raises [OF _ assms(2) this, of "map snd book" nw "[]"] assms(1) Inr
  show ?thesis by (auto simp: get_upcoming_birthdays_def)
qed

theorem get_upcoming_birthdays_leap_day_witness:
  "\<exists>e. get_upcoming_birthdays \<lparr>year = 2025, month = 2, day = 26\<rparr>
     [(ustr ''A'', \<lparr>name = ustr ''A'', phones = [],
                     birthday = Some \<lparr>year = 1990, month = 3, day = 1\<rparr>\<rparr>),
      (ustr ''L'', \<lparr>name = ustr ''L'', phones = [ustr ''0501234567''],
                     birthday = Some \<lparr>year = 2000, month = 2, day = 29\<rparr>\<rparr>)] = Inl e"
  using get_upcoming_birthdays_leap_day
    [of "\<lparr>name = ustr ''L'', phones = [ustr ''0501234567''],
           birthday = Some \<lparr>year = 2000, month = 2, day = 29\<rparr>\<rparr>"
        "[(ustr ''A'', \<lparr>name = ustr ''A'', phones = [],
                     birthday = Some \<lparr>year = 1990, month = 3, day = 1\<rparr>\<rparr>),
          (ustr ''L'', \<lparr>name = ustr ''L'', phones = [ustr ''0501234567''],
                     birthday = Some \<lparr>year = 2000, month = 2, day = 29\<rparr>\<rparr>)]"
        "\<lparr>year = 2000, month = 2, day = 29\<rparr>"
        "\<lparr>year = 2025, month = 2, day = 26\<rparr>"]
  by (simp add: is_leap_def)

section \<open>The commands return strings\<close>

lemma birthday_lines_Inr:
  "\<forall>r\<in>set rs. birthday r \<noteq> None \<Longrightarrow> \<exists>ls. birthday_lines rs = Inr ls"
  by (induction rs) auto

lemma Name_Inl: "Name v = Inl e \<Longrightarrow> caught e"
  by (auto simp: Name_def split: if_splits)

lemma Phone_Inl: "Phone v = Inl e \<Longrightarrow> caught e"
  by (auto simp: Phone_def split: if_splits)

lemma Birthday_Inl: "Birthday v = Inl e \<Longrightarrow> caught e"
  by (auto simp: Birthday_def split: option.splits)

lemma edit_phone_caught: "edit_phone old new r = (Some e, r') \<Longrightarrow> caught e"
  by (auto simp: edit_phone_def edit_phone_from_spec split: if_splits sum.splits
      dest: Phone_Inl)

text \<open>A command whose body raises only what \<open>input_error\<close> catches returns a string.\<close>

lemma input_error_returns:
  assumes "\<And>e b'. func args book = (Inl e, b') \<Longrightarrow> caught e"
  shows "\<exists>msg book'. input_error func args book = (Inr msg, book')"
proof (cases "func args book")
  case (Pair res b')
  with assms show ?thesis by (cases res) (auto simp: input_error_def)
qed

lemma add_contact_body_caught: "add_contact_body args book = (Inl e, b') \<Longrightarrow> caught e"
  by (auto simp: add_contact_body_def unpack_error_def Record_init_def add_phone_def
      split: list.splits option.splits sum.splits if_splits prod.splits
      dest: Name_Inl Phone_Inl)

lemma change_phone_body_caught: "change_phone_body args book = (Inl e, b') \<Longrightarrow> caught e"
  by (auto simp: change_phone_body_def unpack_error_def
      split: list.splits option.splits sum.splits if_splits prod.splits
      dest: edit_phone_caught)

lemma show_phones_body_caught: "show_phones_body args book = (Inl e, b') \<Longrightarrow> caught e"
  by (auto simp: show_phones_body_def index_error_def
      split: list.splits option.splits if_splits)

lemma add_birthday_body_caught: "add_birthday_body args book = (Inl e, b') \<Longrightarrow> caught e"
  by (auto simp: add_birthday_body_def unpack_error_def add_birthday_def
      split: list.splits option.splits sum.splits if_splits prod.splits
      dest: Birthday_Inl)

lemma show_birthday_body_caught: "show_birthday_body args book = (Inl e, b') \<Longrightarrow> caught e"
  by (auto simp: show_birthday_body_def index_error_def
      split: list.splits option.splits if_splits)

lemma delete_contact_body_caught:
  "delete_contact_body args book = (Inl e, b') \<Longrightarrow> caught e"
  by (auto simp: delete_contact_body_def index_error_def AddressBook_delete_def
      split: list.splits option.splits if_splits)

text \<open>
  \<open>birthdays\<close>: the query raises \<open>ValueError\<close> only, once \<open>today + 7 days\<close> is a
  date, and every record it returns has a birthday, so that no line raises.
\<close>

lemma birthdays_body_caught:
  assumes "add_days today 7 \<noteq> None" "birthdays_body today args book = (Inl e, b')"
  shows "caught e"
proof -
  from assms(1) obtain nw where nw: "date_add_timedelta today 7 = Inr nw"
    by (auto simp: date_add_timedelta_def)
  show ?thesis
  proof (cases "upcoming_loop today nw (map snd book) []")
    case (Inl e')
    with nw assms(2) upcoming_loop_Inl [OF Inl] show ?thesis
      by (auto simp: birthdays_body_def get_upcoming_birthdays_def)
  next
    case (Inr res)
    from upcoming_loop_birthday [OF Inr] have "\<forall>r\<in>set res. birthday r \<noteq> None" by simp
    from birthday_lines_Inr [OF this] obtain ls where "birthday_lines res = Inr ls" ..
    with nw Inr assms(2) show ?thesis
      by (auto simp: birthdays_body_def get_upcoming_birthdays_def split: if_splits)
  qed
qed

text \<open>
  C7. For every argument list and every address book, each of \<open>add_contact\<close>,
  \<open>change_phone\<close>, \<open>show_phones\<close>, \<open>add_birthday\<close>, \<open>show_birthday\<close>, \<open>birthdays\<close>
  and \<open>delete_contact\<close> returns a string and raises nothing; and a \<open>ValueError\<close> (the
  class of every validation and lookup error) raised in the body of a command is
  returned as its message. For \<open>birthdays\<close> the date of the clock is such that
  \<open>today + 7 days\<close> is a date, that is, at most 24.12.9999.
\<close>

theorem commands_return_strings:
  "(\<exists>msg book'. add_contact args book = (Inr msg, book'))
   \<and> (\<exists>msg book'. change_phone args book = (Inr msg, book'))
   \<and> (\<exists>msg book'. show_phones args book = (Inr msg, book'))
   \<and> (\<exists>msg book'. add_birthday_cmd args book = (Inr msg, book'))
   \<and> (\<exists>msg book'. show_birthday args book = (Inr msg, book'))
   \<and> (add_days today 7 \<noteq> None \<longrightarrow>
        (\<exists>msg book'. birthdays today args book = (Inr msg, book')))
   \<and> (\<exists>msg book'. delete_contact args book = (Inr msg, book'))
   \<and> (\<forall>func msg book'. func args book = (Inl (ValueError msg), book') \<longrightarrow>
        input_error func args book = (Inr msg, book'))"
proof -
  have a: "\<exists>msg book'. add_contact args book = (Inr msg, book')"
    unfolding add_contact_def by (rule input_error_returns) (rule add_contact_body_caught)
  have b: "\<exists>msg book'. change_phone args book = (Inr msg, book')"
    unfolding change_phone_def by (rule input_error_returns) (rule change_phone_body_caught)
  have c: "\<exists>msg book'. show_phones args book = (Inr msg, book')"
    unfolding show_phones_def by (rule input_error_returns) (rule show_phones_body_caught)
  have d: "\<exists>msg book'. add_birthday_cmd args book = (Inr msg, book')"
    unfolding add_birthday_cmd_def
    by (rule input_error_returns) (rule add_birthday_body_caught)
  have e: "\<exists>msg book'. show_birthday args book = (Inr msg, book')"
    unfolding show_birthday_def
    by (rule input_error_returns) (rule show_birthday_body_caught)
  have f: "\<exists>msg book'. birthdays today args book = (Inr msg, book')"
    if "add_days today 7 \<noteq> None"
    unfolding birthdays_def
    by (rule input_error_returns) (rule birthdays_body_caught [OF that])
  have g: "\<exists>msg book'. delete_contact args book = (Inr msg, book')"
    unfolding delete_contact_def
    by (rule input_error_returns) (rule delete_contact_body_caught)
  have h: "input_error func args book = (Inr msg, book')"
    if "func args book = (Inl (ValueError msg), book')" for func msg book'
    using that by (simp add: input_error_def)
  from a b c d e f g h show ?thesis by blast
qed

text \<open>
  A book with a leap-day birthday, in a year that is not a leap year: \<open>birthdays\<close>
  returns a string all the same, and so does \<open>change_phone\<close> with too few arguments.
\<close>

theorem commands_return_strings_witness:
  "add_days \<lparr>year = 2023, month = 6, day = 10\<rparr> 7 \<noteq> None
   \<and> (\<exists>msg book'.
        birthdays \<lparr>year = 2023, month = 6, day = 10\<rparr> [ustr ''x'']
          [(ustr ''L'', \<lparr>name = ustr ''L'', phones = [],
                          birthday = Some \<lparr>year = 2020, month = 2, day = 29\<rparr>\<rparr>)]
        = (Inr msg, book'))
   \<and> (\<exists>msg book'.
        change_phone [ustr ''x'']
          [(ustr ''L'', \<lparr>name = ustr ''L'', phones = [],
                          birthday = Some \<lparr>year = 2020, month = 2, day = 29\<rparr>\<rparr>)]
        = (Inr msg, book'))"
proof -
  have w: "add_days \<lparr>year = 2023, month = 6, day = 10\<rparr> 7 \<noteq> None"
    by (simp add: add_days_numeral next_day_def days_in_month_def)
  with commands_return_strings [of "[ustr ''x'']"
      "[(ustr ''L'', \<lparr>name = ustr ''L'', phones = [],
                       birthday = Some \<lparr>year = 2020, month = 2, day = 29\<rparr>\<rparr>)]"
      "\<lparr>year = 2023, month = 6, day = 10\<rparr>"]
  show ?thesis by blast
qed

end
